theory Spec2Isabelle
  imports Main "HOL-Library.Word" "HOL-Library.Monad_Syntax"
begin

section \<open>EIP-7980: Ed25519 signature verification and address derivation\<close>

text \<open>
  A shallow embedding of the Go sources of the repository: the package \<open>main\<close>
  (constants, \<open>Verify\<close>, \<open>deriveAddress\<close>, \<open>ParseSignatureInfo\<close>, \<open>ToBytes\<close>) and the
  copy of \<open>Verify\<close> and \<open>deriveAddress\<close> kept in the package \<open>test\<close>.

  A Go function returning \<open>(T, error)\<close> is a function into \<open>T \<times> error option\<close>, the
  second component \<open>None\<close> for \<open>nil\<close>. A run-time panic (a slice expression out of
  range, the panic of the library's verification on a public key of the wrong
  size) is the value \<open>None\<close> of an outer \<open>option\<close>, so every function that can reach
  a panicking operation returns \<open>_ option\<close>.
\<close>

subsection \<open>Bytes, slices and copy\<close>

type_synonym byte = "8 word"
type_synonym bytes = "byte list"

text \<open>
  The slice expression \<open>s[lo:hi]\<close>. Go panics unless \<open>0 \<le> lo \<le> hi \<le> cap(s)\<close>; the
  capacity is taken to be the length, which is the least a slice can have.
  Indices are Go \<open>int\<close>s, so that \<open>len(s) - 20\<close> can be negative.
\<close>

definition slice :: "'a list \<Rightarrow> int \<Rightarrow> int \<Rightarrow> 'a list option" where
  "slice s lo hi =
     (if 0 \<le> lo \<and> lo \<le> hi \<and> hi \<le> int (length s)
      then Some (take (nat (hi - lo)) (drop (nat lo) s))
      else None)"

text \<open>
  The builtin \<open>copy(dst, src)\<close> copies \<open>min(len(dst), len(src))\<close> elements and
  leaves the rest of \<open>dst\<close> as it was; the result is the new content of \<open>dst\<close>.
\<close>

definition copy :: "'a list \<Rightarrow> 'a list \<Rightarrow> 'a list" where
  "copy dst src =
     (let n = min (length dst) (length src) in take n src @ drop n dst)"

text \<open>
  \<open>copy(a[lo:hi], src)\<close> writes through the slice into the array \<open>a\<close> it aliases:
  the elements of \<open>a\<close> from \<open>lo\<close> up to \<open>hi\<close> are replaced by the copy's result.
\<close>

definition copy_at :: "'a list \<Rightarrow> int \<Rightarrow> int \<Rightarrow> 'a list \<Rightarrow> 'a list option" where
  "copy_at a lo hi src =
     (case slice a lo hi of
        None \<Rightarrow> None
      | Some dst \<Rightarrow> Some (take (nat lo) a @ copy dst src @ drop (nat hi) a))"

subsection \<open>Constants\<close>

definition ALG_TYPE :: byte where
  "ALG_TYPE = 0x00"

definition GAS_PENALTY :: int where
  "GAS_PENALTY = 1000"

definition MAX_SIZE :: int where
  "MAX_SIZE = 96"

subsection \<open>Errors of the package main\<close>

text \<open>
  \<open>errors.New\<close> and \<open>fmt.Errorf\<close> (without \<open>%w\<close>) both return an error value that
  carries nothing but its message.
\<close>

datatype error = errorString string

definition digit_char :: "nat \<Rightarrow> char" where
  "digit_char d = ''0123456789'' ! d"

fun digits :: "nat \<Rightarrow> string" where
  "digits n = (if n < 10 then [digit_char n] else digits (n div 10) @ [digit_char (n mod 10)])"

declare digits.simps [simp del]

text \<open>The verb \<open>%d\<close> applied to an \<open>int\<close>.\<close>

definition fmt_d :: "int \<Rightarrow> string" where
  "fmt_d i = (if i < 0 then CHR ''-'' # digits (nat (- i)) else digits (nat i))"

text \<open>\<open>fmt.Errorf("invalid signature info length: expected %d, got %d", e, g)\<close>\<close>

definition Errorf_signature_info_length :: "int \<Rightarrow> int \<Rightarrow> error" where
  "Errorf_signature_info_length e g =
     errorString (''invalid signature info length: expected '' @ fmt_d e @ '', got '' @ fmt_d g)"

text \<open>\<open>fmt.Errorf("invalid data length: expected %d, got %d", e, g)\<close>\<close>

definition Errorf_data_length :: "int \<Rightarrow> int \<Rightarrow> error" where
  "Errorf_data_length e g =
     errorString (''invalid data length: expected '' @ fmt_d e @ '', got '' @ fmt_d g)"

definition errors_New :: "string \<Rightarrow> error" where
  "errors_New s = errorString s"

subsection \<open>The library primitives\<close>

text \<open>
  \<open>crypto/ed25519\<close> and \<open>golang.org/x/crypto/sha3\<close> are libraries, not code of the
  repository. The decision of \<open>ed25519.Verify\<close> on a public key, a message and a
  signature is a parameter \<open>accepts\<close>; the digest that \<open>sha3.NewLegacyKeccak256\<close>
  returns from \<open>Sum(nil)\<close> after the bytes written to it is a parameter
  \<open>keccak256\<close>. What the library documents beyond the decision is written out:
  \<open>ed25519.Verify\<close> panics when the public key is not \<open>PublicKeySize = 32\<close> bytes
  long.
\<close>

type_synonym ed25519_decision = "bytes \<Rightarrow> bytes \<Rightarrow> bytes \<Rightarrow> bool"
type_synonym hash_function = "bytes \<Rightarrow> bytes"

definition ed25519_Verify :: "ed25519_decision \<Rightarrow> bytes \<Rightarrow> bytes \<Rightarrow> bytes \<Rightarrow> bool option" where
  "ed25519_Verify accepts publicKey message sig =
     (if length publicKey \<noteq> 32 then None
      else Some (accepts publicKey message sig))"

subsection \<open>The package main\<close>

type_synonym ExecutionAddress = bytes

text \<open>The zero value \<open>ExecutionAddress{}\<close> of the array type \<open>[20]byte\<close>.\<close>

definition ExecutionAddress_zero :: ExecutionAddress where
  "ExecutionAddress_zero = replicate 20 0"

definition deriveAddress :: "hash_function \<Rightarrow> bytes \<Rightarrow> ExecutionAddress option" where
  "deriveAddress keccak256 publicKey =
     (let fullHash = keccak256 publicKey in
      do {
        tail \<leftarrow> slice fullHash (int (length fullHash) - 20) (int (length fullHash));
        let address = ExecutionAddress_zero;
        let address = copy address tail;
        Some address
      })"

definition Verify ::
  "ed25519_decision \<Rightarrow> hash_function \<Rightarrow> bytes \<Rightarrow> bytes \<Rightarrow> (ExecutionAddress \<times> error option) option"
where
  "Verify accepts keccak256 signatureInfo payloadHash =
     (if int (length signatureInfo) \<noteq> MAX_SIZE
      then Some (ExecutionAddress_zero,
                 Some (Errorf_signature_info_length MAX_SIZE (int (length signatureInfo))))
      else do {
        signature \<leftarrow> slice signatureInfo 0 64;
        publicKey \<leftarrow> slice signatureInfo 64 96;
        ok \<leftarrow> ed25519_Verify accepts publicKey payloadHash signature;
        if \<not> ok
        then Some (ExecutionAddress_zero,
                   Some (errors_New ''ed25519 signature verification failed''))
        else do {
          address \<leftarrow> deriveAddress keccak256 publicKey;
          Some (address, None)
        }
      })"

record SignatureInfo =
  Signature :: bytes
  PublicKey :: bytes

text \<open>The zero value \<open>SignatureInfo{}\<close>: a \<open>[64]byte\<close> and a \<open>[32]byte\<close> of zeros.\<close>

definition SignatureInfo_zero :: SignatureInfo where
  "SignatureInfo_zero = \<lparr>Signature = replicate 64 0, PublicKey = replicate 32 0\<rparr>"

definition ParseSignatureInfo :: "bytes \<Rightarrow> (SignatureInfo option \<times> error option) option" where
  "ParseSignatureInfo data =
     (if int (length data) \<noteq> MAX_SIZE
      then Some (None, Some (Errorf_data_length MAX_SIZE (int (length data))))
      else do {
        let sigInfo = SignatureInfo_zero;
        src1 \<leftarrow> slice data 0 64;
        let sigInfo = sigInfo\<lparr>Signature := copy (Signature sigInfo) src1\<rparr>;
        src2 \<leftarrow> slice data 64 96;
        let sigInfo = sigInfo\<lparr>PublicKey := copy (PublicKey sigInfo) src2\<rparr>;
        Some (Some sigInfo, None)
      })"

definition ToBytes :: "SignatureInfo \<Rightarrow> bytes option" where
  "ToBytes s =
     do {
       let result = replicate (nat MAX_SIZE) (0 :: byte);
       result \<leftarrow> copy_at result 0 64 (Signature s);
       result \<leftarrow> copy_at result 64 (int (length result)) (PublicKey s);
       Some result
     }"

subsection \<open>The package test\<close>

text \<open>
  The test package declares the constants, \<open>Verify\<close> and \<open>deriveAddress\<close> again,
  with two error values of its own type \<open>VerifyError\<close>. The names carry the suffix
  \<open>_test\<close> here.
\<close>

definition ALG_TYPE_test :: byte where
  "ALG_TYPE_test = 0x00"

definition GAS_PENALTY_test :: int where
  "GAS_PENALTY_test = 1000"

definition MAX_SIZE_test :: int where
  "MAX_SIZE_test = 96"

datatype VerifyError = VerifyError (msg: string)

definition ErrInvalidLength :: VerifyError where
  "ErrInvalidLength = VerifyError ''invalid signature length''"

definition ErrInvalidSignature :: VerifyError where
  "ErrInvalidSignature = VerifyError ''signature verification failed''"

definition deriveAddress_test :: "hash_function \<Rightarrow> bytes \<Rightarrow> ExecutionAddress option" where
  "deriveAddress_test keccak256 publicKey =
     (let fullHash = keccak256 publicKey in
      do {
        tail \<leftarrow> slice fullHash (int (length fullHash) - 20) (int (length fullHash));
        let address = ExecutionAddress_zero;
        let address = copy address tail;
        Some address
      })"

definition Verify_test ::
  "ed25519_decision \<Rightarrow> hash_function \<Rightarrow> bytes \<Rightarrow> bytes \<Rightarrow> (ExecutionAddress \<times> VerifyError option) option"
where
  "Verify_test accepts keccak256 signatureInfo payloadHash =
     (if int (length signatureInfo) \<noteq> MAX_SIZE_test
      then Some (ExecutionAddress_zero, Some ErrInvalidLength)
      else do {
        signature \<leftarrow> slice signatureInfo 0 64;
        publicKey \<leftarrow> slice signatureInfo 64 96;
        ok \<leftarrow> ed25519_Verify accepts publicKey payloadHash signature;
        if \<not> ok
        then Some (ExecutionAddress_zero, Some ErrInvalidSignature)
        else do {
          address \<leftarrow> deriveAddress_test keccak256 publicKey;
          Some (address, None)
        }
      })"

subsection \<open>The package main with the heap written out\<close>

text \<open>
  \<open>deriveAddress\<close> works on a hash object: \<open>sha3.NewLegacyKeccak256()\<close> allocates
  it, \<open>hash.Write\<close> changes it and \<open>hash.Sum\<close> reads it. Here the heap of hash
  objects is explicit, a list indexed by address, and \<open>deriveAddress\<close> and
  \<open>Verify\<close> take the heap they start in and return the heap they leave. A hash
  object is the bytes written to it so far (\<open>hash.Hash\<close>: \<open>Write\<close> adds data to
  the running hash, \<open>Sum\<close> appends the current hash to its argument and does not
  change the underlying state); the digest of those bytes is the parameter
  \<open>keccak256\<close> as before. A method called through an address that holds no
  object panics.
\<close>

record hash_object =
  written :: bytes

type_synonym heap = "hash_object list"

definition NewLegacyKeccak256 :: "heap \<Rightarrow> nat \<times> heap" where
  "NewLegacyKeccak256 \<sigma> = (length \<sigma>, \<sigma> @ [\<lparr>written = []\<rparr>])"

definition hash_Write :: "heap \<Rightarrow> nat \<Rightarrow> bytes \<Rightarrow> heap option" where
  "hash_Write \<sigma> hash p =
     (if hash < length \<sigma>
      then Some (\<sigma>[hash := (\<sigma> ! hash)\<lparr>written := written (\<sigma> ! hash) @ p\<rparr>])
      else None)"

definition hash_Sum :: "hash_function \<Rightarrow> heap \<Rightarrow> nat \<Rightarrow> bytes \<Rightarrow> bytes option" where
  "hash_Sum keccak256 \<sigma> hash b =
     (if hash < length \<sigma> then Some (b @ keccak256 (written (\<sigma> ! hash))) else None)"

definition deriveAddress_heap ::
  "hash_function \<Rightarrow> heap \<Rightarrow> bytes \<Rightarrow> (ExecutionAddress \<times> heap) option"
where
  "deriveAddress_heap keccak256 \<sigma> publicKey =
     (let (hash, \<sigma>) = NewLegacyKeccak256 \<sigma> in
      do {
        \<sigma> \<leftarrow> hash_Write \<sigma> hash publicKey;
        fullHash \<leftarrow> hash_Sum keccak256 \<sigma> hash [];
        tail \<leftarrow> slice fullHash (int (length fullHash) - 20) (int (length fullHash));
        let address = ExecutionAddress_zero;
        let address = copy address tail;
        Some (address, \<sigma>)
      })"

definition Verify_heap ::
  "ed25519_decision \<Rightarrow> hash_function \<Rightarrow> heap \<Rightarrow> bytes \<Rightarrow> bytes
     \<Rightarrow> ((ExecutionAddress \<times> error option) \<times> heap) option"
where
  "Verify_heap accepts keccak256 \<sigma> signatureInfo payloadHash =
     (if int (length signatureInfo) \<noteq> MAX_SIZE
      then Some ((ExecutionAddress_zero,
                  Some (Errorf_signature_info_length MAX_SIZE (int (length signatureInfo)))),
                 \<sigma>)
      else do {
        signature \<leftarrow> slice signatureInfo 0 64;
        publicKey \<leftarrow> slice signatureInfo 64 96;
        ok \<leftarrow> ed25519_Verify accepts publicKey payloadHash signature;
        if \<not> ok
        then Some ((ExecutionAddress_zero,
                    Some (errors_New ''ed25519 signature verification failed'')),
                   \<sigma>)
        else do {
          (address, \<sigma>) \<leftarrow> deriveAddress_heap keccak256 \<sigma> publicKey;
          Some ((address, None), \<sigma>)
        }
      })"

subsection \<open>Stand-ins for the library parameters\<close>

text \<open>
  Concrete functions of the right shape, at which the theorems below are
  instantiated: a decision that accepts exactly the signature made of the message
  followed by the public key, a private key that ends with its public key (as the
  64-byte private keys of \<open>crypto/ed25519\<close> do), and a digest that truncates or
  zero-pads its input to 32 bytes. They say nothing about Ed25519 or Keccak.
\<close>

definition sample_accepts :: ed25519_decision where
  "sample_accepts publicKey message sig = (sig = message @ publicKey)"

definition sample_keypair :: "bytes \<Rightarrow> bytes \<Rightarrow> bool" where
  "sample_keypair pk sk = (length pk = 32 \<and> length sk = 64 \<and> drop 32 sk = pk)"

definition sample_sign :: "bytes \<Rightarrow> bytes \<Rightarrow> bytes" where
  "sample_sign sk message = message @ drop 32 sk"

definition sample_keccak256 :: hash_function where
  "sample_keccak256 data = take 32 (data @ replicate 32 0)"

section \<open>Properties\<close>

subsection \<open>Slices of a 96-byte input, address derivation, the two branches of Verify\<close>

lemma slice_signature:
  "length s = 96 \<Longrightarrow> slice s 0 64 = Some (take 64 s)"
  by (simp add: slice_def)

lemma slice_publicKey:
  "length s = 96 \<Longrightarrow> slice s 64 96 = Some (drop 64 s)"
  by (simp add: slice_def)

lemma deriveAddress_Some:
  assumes len: "20 \<le> length (keccak256 pk)"
  shows "deriveAddress keccak256 pk =
           Some (drop (length (keccak256 pk) - 20) (keccak256 pk))"
proof -
  from len have idx: "nat (int (length (keccak256 pk)) - 20) = length (keccak256 pk) - 20"
    by arith
  from len show ?thesis
    by (simp add: deriveAddress_def slice_def Let_def copy_def ExecutionAddress_zero_def idx)
qed

lemma deriveAddress_None:
  "length (keccak256 pk) < 20 \<Longrightarrow> deriveAddress keccak256 pk = None"
  by (simp add: deriveAddress_def slice_def Let_def)

lemma deriveAddress_test_eq:
  "deriveAddress_test keccak256 pk = deriveAddress keccak256 pk"
  by (simp add: deriveAddress_def deriveAddress_test_def)

lemma Verify_96:
  "length s = 96 \<Longrightarrow>
   Verify accepts keccak256 s h =
     (if accepts (drop 64 s) h (take 64 s)
      then map_option (\<lambda>a. (a, None)) (deriveAddress keccak256 (drop 64 s))
      else Some (ExecutionAddress_zero,
                 Some (errors_New ''ed25519 signature verification failed'')))"
  by (cases "deriveAddress keccak256 (drop 64 s)")
     (simp_all add: Verify_def MAX_SIZE_def slice_signature slice_publicKey ed25519_Verify_def)

lemma Verify_not_96:
  "length s \<noteq> 96 \<Longrightarrow>
   Verify accepts keccak256 s h =
     Some (ExecutionAddress_zero,
           Some (Errorf_signature_info_length MAX_SIZE (int (length s))))"
  by (simp add: Verify_def MAX_SIZE_def)

lemma Verify_test_96:
  "length s = 96 \<Longrightarrow>
   Verify_test accepts keccak256 s h =
     (if accepts (drop 64 s) h (take 64 s)
      then map_option (\<lambda>a. (a, None)) (deriveAddress keccak256 (drop 64 s))
      else Some (ExecutionAddress_zero, Some ErrInvalidSignature))"
  by (cases "deriveAddress keccak256 (drop 64 s)")
     (simp_all add: Verify_test_def MAX_SIZE_test_def slice_signature slice_publicKey
        ed25519_Verify_def deriveAddress_test_eq)

lemma Verify_test_not_96:
  "length s \<noteq> 96 \<Longrightarrow>
   Verify_test accepts keccak256 s h = Some (ExecutionAddress_zero, Some ErrInvalidLength)"
  by (simp add: Verify_test_def MAX_SIZE_test_def)

lemma length_error_neq_signature_error:
  "Errorf_signature_info_length e g \<noteq> errors_New ''ed25519 signature verification failed''"
  by (simp add: Errorf_signature_info_length_def errors_New_def)

lemma sample_keccak256_length:
  "length (sample_keccak256 x) = 32"
  by (simp add: sample_keccak256_def)

subsection \<open>Verification decides success\<close>

text \<open>
  C1. On a 96-byte \<open>signatureInfo\<close>, \<open>Verify\<close> returns an address with a \<open>nil\<close> error
  exactly when the Ed25519 primitive accepts the signature \<open>signatureInfo[0:64]\<close>
  under the public key \<open>signatureInfo[64:96]\<close> over \<open>payloadHash\<close>; when the
  primitive rejects, the result is the signature-verification error; and a
  success, on any input and with any primitive, implies that the input had 96
  bytes and that the primitive accepted those very slices. The primitive is the
  library's \<open>ed25519.Verify\<close> (pure Ed25519), a parameter here; the digest of the
  hash is taken to be 32 bytes long.
\<close>

theorem verify_iff_ed25519:
  assumes len: "length s = 96"
    and digest: "\<forall>x. length (keccak256 x) = 32"
  shows "((\<exists>addr. Verify accepts keccak256 s h = Some (addr, None))
            \<longleftrightarrow> accepts (drop 64 s) h (take 64 s))
       \<and> (\<not> accepts (drop 64 s) h (take 64 s) \<longrightarrow>
            Verify accepts keccak256 s h =
              Some (ExecutionAddress_zero,
                    Some (errors_New ''ed25519 signature verification failed'')))
       \<and> (\<forall>accepts' s' h' addr. Verify accepts' keccak256 s' h' = Some (addr, None) \<longrightarrow>
            length s' = 96 \<and> accepts' (drop 64 s') h' (take 64 s'))"
proof (intro conjI allI impI)
  have d: "20 \<le> length (keccak256 (drop 64 s))" using digest by simp
  show "(\<exists>addr. Verify accepts keccak256 s h = Some (addr, None))
          \<longleftrightarrow> accepts (drop 64 s) h (take 64 s)"
    by (simp add: Verify_96 [OF len] deriveAddress_Some [of keccak256 "drop 64 s"] d)
next
  assume "\<not> accepts (drop 64 s) h (take 64 s)"
  then show "Verify accepts keccak256 s h =
      Some (ExecutionAddress_zero, Some (errors_New ''ed25519 signature verification failed''))"
    by (simp add: Verify_96 [OF len])
next
  fix accepts' s' h' addr
  assume ok: "Verify accepts' keccak256 s' h' = Some (addr, None)"
  show "length s' = 96"
  proof (rule ccontr)
    assume "length s' \<noteq> 96"
    from Verify_not_96 [OF this] ok show False by simp
  qed
  then show "accepts' (drop 64 s') h' (take 64 s')"
    using ok by (simp add: Verify_96 split: if_splits)
qed

theorem verify_iff_ed25519_witness:
  "length (replicate 32 (7 :: byte) @ replicate 64 (1 :: byte)) = 96
   \<and> (\<forall>x. length (sample_keccak256 x) = 32)
   \<and> sample_accepts (drop 64 (replicate 32 7 @ replicate 64 1)) (replicate 32 7)
        (take 64 (replicate 32 7 @ replicate 64 1))
   \<and> (\<exists>addr. Verify sample_accepts sample_keccak256 (replicate 32 7 @ replicate 64 1)
                (replicate 32 7) = Some (addr, None))"
  using verify_iff_ed25519 [of "replicate 32 7 @ replicate 64 1" sample_keccak256
      sample_accepts "replicate 32 7"]
  by (simp add: sample_keccak256_length sample_accepts_def)

subsection \<open>Sign, then verify\<close>

text \<open>
  C2. For a valid key pair \<open>(pk, sk)\<close> and a 32-byte digest \<open>h\<close>, \<open>Verify\<close> on
  \<open>sign sk h @ pk\<close> and \<open>h\<close> succeeds and returns the last 20 bytes of
  \<open>keccak256 pk\<close>. Key pairs and signing belong to the library, so they are
  parameters, and the correctness of the scheme (a public key has 32 bytes, a
  signature 64, and the primitive accepts what \<open>sign\<close> produced under the matching
  key) is a hypothesis, as is the 32-byte digest of the hash.
\<close>

theorem verify_signed:
  assumes scheme: "\<forall>pk sk m. keypair pk sk \<and> length m = 32 \<longrightarrow>
             length pk = 32 \<and> length (sign sk m) = 64 \<and> accepts pk m (sign sk m)"
    and digest: "\<forall>x. length (keccak256 x) = 32"
    and valid: "keypair pk sk"
    and h: "length h = 32"
  shows "Verify accepts keccak256 (sign sk h @ pk) h = Some (drop 12 (keccak256 pk), None)
       \<and> length (drop 12 (keccak256 pk)) = 20"
proof -
  from scheme valid h have pk: "length pk = 32" and sg: "length (sign sk h) = 64"
    and acc: "accepts pk h (sign sk h)"
    by blast+
  have len: "length (sign sk h @ pk) = 96" using pk sg by simp
  have d: "20 \<le> length (keccak256 pk)" and d32: "length (keccak256 pk) = 32"
    using digest by simp_all
  have "Verify accepts keccak256 (sign sk h @ pk) h
          = Some (drop (length (keccak256 pk) - 20) (keccak256 pk), None)"
    using acc by (simp add: Verify_96 [OF len] sg deriveAddress_Some [of keccak256 pk] d)
  then show ?thesis by (simp add: d32)
qed

theorem verify_signed_witness:
  "(\<forall>x. length (sample_keccak256 x) = 32)
   \<and> sample_keypair (replicate 32 5) (replicate 32 9 @ replicate 32 5)
   \<and> length (replicate 32 (3 :: byte)) = 32
   \<and> length (sample_sign (replicate 32 9 @ replicate 32 5) (replicate 32 3)) = 64
   \<and> sample_accepts (replicate 32 5) (replicate 32 3)
        (sample_sign (replicate 32 9 @ replicate 32 5) (replicate 32 3))
   \<and> Verify sample_accepts sample_keccak256
        (sample_sign (replicate 32 9 @ replicate 32 5) (replicate 32 3) @ replicate 32 5)
        (replicate 32 3)
      = Some (replicate 20 5, None)"
proof -
  have scheme: "\<forall>pk sk m. sample_keypair pk sk \<and> length m = 32 \<longrightarrow>
      length pk = 32 \<and> length (sample_sign sk m) = 64 \<and> sample_accepts pk m (sample_sign sk m)"
    by (simp add: sample_keypair_def sample_sign_def sample_accepts_def)
  have digest: "\<forall>x. length (sample_keccak256 x) = 32"
    by (simp add: sample_keccak256_length)
  have valid: "sample_keypair (replicate 32 5) (replicate 32 9 @ replicate 32 5)"
    by (simp add: sample_keypair_def)
  have h: "length (replicate 32 (3 :: byte)) = 32" by simp
  have "drop 12 (sample_keccak256 (replicate 32 5)) = replicate 20 5"
    by (simp add: sample_keccak256_def)
  with verify_signed [OF scheme digest valid h]
  have "Verify sample_accepts sample_keccak256
        (sample_sign (replicate 32 9 @ replicate 32 5) (replicate 32 3) @ replicate 32 5)
        (replicate 32 3)
      = Some (replicate 20 5, None)"
    by simp
  moreover from scheme valid h
  have "length (sample_sign (replicate 32 9 @ replicate 32 5) (replicate 32 3)) = 64"
    and "sample_accepts (replicate 32 5) (replicate 32 3)
        (sample_sign (replicate 32 9 @ replicate 32 5) (replicate 32 3))"
    by blast+
  ultimately show ?thesis using digest valid h
    by (intro conjI)
qed

subsection \<open>The length check\<close>

text \<open>
  C3. When \<open>signatureInfo\<close> does not have 96 bytes, \<open>Verify\<close> fails with the length
  error whatever the bytes and the payload hash are: the result is the same for
  any other input of the same length, any other payload hash and any other
  verification and hash primitives, so nothing cryptographic takes part in it.
\<close>

theorem verify_invalid_length:
  assumes "length s \<noteq> 96"
  shows "Verify accepts keccak256 s h =
           Some (ExecutionAddress_zero,
                 Some (Errorf_signature_info_length MAX_SIZE (int (length s))))
       \<and> (\<forall>accepts' keccak256' s' h'. length s' = length s \<longrightarrow>
             Verify accepts' keccak256' s' h' = Verify accepts keccak256 s h)"
  using assms by (simp add: Verify_not_96)

theorem verify_invalid_length_witness:
  "length (replicate 50 (0 :: byte)) \<noteq> 96
   \<and> Verify sample_accepts sample_keccak256 (replicate 50 0) (replicate 32 0) =
       Some (replicate 20 0,
             Some (errorString ''invalid signature info length: expected 96, got 50''))"
proof -
  have ne: "length (replicate 50 (0 :: byte)) \<noteq> 96" by simp
  have "fmt_d 96 = ''96''" and "fmt_d 50 = ''50''"
    by (simp_all add: fmt_d_def digits.simps digit_char_def)
  with verify_invalid_length [OF ne, of sample_accepts sample_keccak256 "replicate 32 0"] ne
  show ?thesis
    by (simp add: Errorf_signature_info_length_def MAX_SIZE_def ExecutionAddress_zero_def)
qed

subsection \<open>The address\<close>

text \<open>
  C4. Whenever \<open>Verify\<close> succeeds, the address it returns has 20 bytes and is the
  last 20 bytes of the legacy Keccak-256 digest of the public-key bytes
  \<open>signatureInfo[64:96]\<close>; two successful calls whose inputs carry the same
  public-key bytes return the same address, whatever the signatures, the
  payload hashes and the verification primitives are. The hash is the
  library's \<open>sha3.NewLegacyKeccak256\<close>, a parameter here.
\<close>

theorem verify_address:
  assumes ok: "Verify accepts keccak256 s h = Some (addr, None)"
    and ok': "Verify accepts' keccak256 s' h' = Some (addr', None)"
    and same: "take 32 (drop 64 s') = take 32 (drop 64 s)"
  shows "addr = drop (length (keccak256 (take 32 (drop 64 s))) - 20)
                  (keccak256 (take 32 (drop 64 s)))
       \<and> length addr = 20
       \<and> addr' = addr"
proof -
  have derived: "a = drop (length (keccak256 (take 32 (drop 64 t))) - 20)
                       (keccak256 (take 32 (drop 64 t))) \<and> length a = 20"
    if r: "Verify acc keccak256 t g = Some (a, None)" for acc t g a
  proof -
    have len: "length t = 96"
    proof (rule ccontr)
      assume "length t \<noteq> 96"
      from Verify_not_96 [OF this] r show False by simp
    qed
    then have pk: "take 32 (drop 64 t) = drop 64 t" by simp
    from r len have da: "deriveAddress keccak256 (drop 64 t) = Some a"
      by (auto simp: Verify_96 split: if_splits)
    have big: "20 \<le> length (keccak256 (drop 64 t))"
    proof (rule ccontr)
      assume "\<not> 20 \<le> length (keccak256 (drop 64 t))"
      then have "deriveAddress keccak256 (drop 64 t) = None"
        by (simp add: deriveAddress_None)
      with da show False by simp
    qed
    from da deriveAddress_Some [of keccak256 "drop 64 t"] big
    have "a = drop (length (keccak256 (drop 64 t)) - 20) (keccak256 (drop 64 t))"
      by simp
    with big show ?thesis by (simp add: pk)
  qed
  from derived [OF ok]
  have a: "addr = drop (length (keccak256 (take 32 (drop 64 s))) - 20)
                    (keccak256 (take 32 (drop 64 s)))"
    and l: "length addr = 20"
    by blast+
  from derived [OF ok', unfolded same]
  have "addr' = drop (length (keccak256 (take 32 (drop 64 s))) - 20)
                    (keccak256 (take 32 (drop 64 s)))"
    by blast
  with a have "addr' = addr" by simp
  with a l show ?thesis by blast
qed

theorem verify_address_witness:
  "Verify sample_accepts sample_keccak256 (replicate 32 7 @ replicate 64 2) (replicate 32 7)
     = Some (replicate 20 2, None)
   \<and> Verify sample_accepts sample_keccak256 (replicate 32 4 @ replicate 64 2) (replicate 32 4)
     = Some (replicate 20 2, None)
   \<and> take 32 (drop 64 (replicate 32 (4 :: byte) @ replicate 64 2))
       = take 32 (drop 64 (replicate 32 7 @ replicate 64 2))
   \<and> replicate 20 (2 :: byte)
       = drop (length (sample_keccak256 (take 32 (drop 64 (replicate 32 7 @ replicate 64 2)))) - 20)
           (sample_keccak256 (take 32 (drop 64 (replicate 32 7 @ replicate 64 2))))
   \<and> length (replicate 20 (2 :: byte)) = 20"
proof -
  have da: "deriveAddress sample_keccak256 (replicate 32 2) = Some (replicate 20 2)"
    using deriveAddress_Some [of sample_keccak256 "replicate 32 2"]
    by (simp add: sample_keccak256_def)
  have ok: "Verify sample_accepts sample_keccak256 (replicate 32 7 @ replicate 64 2)
      (replicate 32 7) = Some (replicate 20 2, None)"
    by (simp add: Verify_96 sample_accepts_def da)
  have ok': "Verify sample_accepts sample_keccak256 (replicate 32 4 @ replicate 64 2)
      (replicate 32 4) = Some (replicate 20 2, None)"
    by (simp add: Verify_96 sample_accepts_def da)
  have same: "take 32 (drop 64 (replicate 32 (4 :: byte) @ replicate 64 2))
       = take 32 (drop 64 (replicate 32 7 @ replicate 64 2))"
    by simp
  from verify_address [OF ok ok' same] have
    "replicate 20 (2 :: byte)
       = drop (length (sample_keccak256 (take 32 (drop 64 (replicate 32 7 @ replicate 64 2)))) - 20)
           (sample_keccak256 (take 32 (drop 64 (replicate 32 7 @ replicate 64 2))))"
    and "length (replicate 20 (2 :: byte)) = 20"
    by blast+
  with ok ok' same show ?thesis
    by (intro conjI)
qed

subsection \<open>The three outcomes\<close>

text \<open>
  C5. Every call of \<open>Verify\<close> ends in exactly one of three ways, decided by the
  length of the input and by the verification primitive: the length error when
  the input does not have 96 bytes, the signature error when it has and the
  primitive rejects, a 20-byte address with a \<open>nil\<close> error when it has and the
  primitive accepts. A failure always carries a non-\<open>nil\<close> error, the two errors
  are different values, and no call panics. The same holds of the \<open>Verify\<close> of
  the test package with its two \<open>VerifyError\<close> values. The digest of the hash is
  taken to be 32 bytes long.
\<close>

theorem verify_outcomes:
  assumes digest: "\<forall>x. length (keccak256 x) = 32"
  shows "((length s \<noteq> 96
            \<and> Verify accepts keccak256 s h =
                Some (ExecutionAddress_zero,
                      Some (Errorf_signature_info_length MAX_SIZE (int (length s)))))
        \<or> (length s = 96 \<and> \<not> accepts (drop 64 s) h (take 64 s)
            \<and> Verify accepts keccak256 s h =
                Some (ExecutionAddress_zero,
                      Some (errors_New ''ed25519 signature verification failed'')))
        \<or> (length s = 96 \<and> accepts (drop 64 s) h (take 64 s)
            \<and> (\<exists>addr. length addr = 20 \<and> Verify accepts keccak256 s h = Some (addr, None))))
       \<and> Errorf_signature_info_length MAX_SIZE (int (length s))
            \<noteq> errors_New ''ed25519 signature verification failed''
       \<and> ((length s \<noteq> 96
            \<and> Verify_test accepts keccak256 s h =
                Some (ExecutionAddress_zero, Some ErrInvalidLength))
        \<or> (length s = 96 \<and> \<not> accepts (drop 64 s) h (take 64 s)
            \<and> Verify_test accepts keccak256 s h =
                Some (ExecutionAddress_zero, Some ErrInvalidSignature))
        \<or> (length s = 96 \<and> accepts (drop 64 s) h (take 64 s)
            \<and> (\<exists>addr. length addr = 20 \<and> Verify_test accepts keccak256 s h = Some (addr, None))))
       \<and> ErrInvalidLength \<noteq> ErrInvalidSignature"
proof -
  have d: "20 \<le> length (keccak256 (drop 64 s))" and d32: "length (keccak256 (drop 64 s)) = 32"
    using digest by simp_all
  note da = deriveAddress_Some [of keccak256 "drop 64 s", OF d]
  have main: "(length s \<noteq> 96
            \<and> Verify accepts keccak256 s h =
                Some (ExecutionAddress_zero,
                      Some (Errorf_signature_info_length MAX_SIZE (int (length s)))))
        \<or> (length s = 96 \<and> \<not> accepts (drop 64 s) h (take 64 s)
            \<and> Verify accepts keccak256 s h =
                Some (ExecutionAddress_zero,
                      Some (errors_New ''ed25519 signature verification failed'')))
        \<or> (length s = 96 \<and> accepts (drop 64 s) h (take 64 s)
            \<and> (\<exists>addr. length addr = 20 \<and> Verify accepts keccak256 s h = Some (addr, None)))"
  proof (cases "length s = 96")
    case False
    then show ?thesis by (simp add: Verify_not_96)
  next
    case True
    then show ?thesis by (simp add: Verify_96 da d32)
  qed
  have test: "(length s \<noteq> 96
            \<and> Verify_test accepts keccak256 s h =
                Some (ExecutionAddress_zero, Some ErrInvalidLength))
        \<or> (length s = 96 \<and> \<not> accepts (drop 64 s) h (take 64 s)
            \<and> Verify_test accepts keccak256 s h =
                Some (ExecutionAddress_zero, Some ErrInvalidSignature))
        \<or> (length s = 96 \<and> accepts (drop 64 s) h (take 64 s)
            \<and> (\<exists>addr. length addr = 20 \<and> Verify_test accepts keccak256 s h = Some (addr, None)))"
  proof (cases "length s = 96")
    case False
    then show ?thesis by (simp add: Verify_test_not_96)
  next
    case True
    then show ?thesis by (simp add: Verify_test_96 da d32)
  qed
  have ne: "ErrInvalidLength \<noteq> ErrInvalidSignature"
    by (simp add: ErrInvalidLength_def ErrInvalidSignature_def)
  from main test ne length_error_neq_signature_error show ?thesis
    by (intro conjI)
qed

theorem verify_outcomes_witness:
  "(\<forall>x. length (sample_keccak256 x) = 32)
   \<and> Verify sample_accepts sample_keccak256 (replicate 96 0) (replicate 32 1)
       = Some (ExecutionAddress_zero,
               Some (errors_New ''ed25519 signature verification failed''))
   \<and> Verify_test sample_accepts sample_keccak256 (replicate 96 0) (replicate 32 1)
       = Some (ExecutionAddress_zero, Some ErrInvalidSignature)"
proof -
  have digest: "\<forall>x. length (sample_keccak256 x) = 32"
    by (simp add: sample_keccak256_length)
  have rej: "\<not> sample_accepts (drop 64 (replicate 96 0)) (replicate 32 1)
                 (take 64 (replicate 96 0))"
  proof
    assume "sample_accepts (drop 64 (replicate 96 0)) (replicate 32 1) (take 64 (replicate 96 0))"
    then have "hd (replicate 64 (0 :: byte)) = hd (replicate 32 (1 :: byte) @ replicate 32 0)"
      by (simp add: sample_accepts_def)
    then show False by simp
  qed
  from verify_outcomes [OF digest, of "replicate 96 0" sample_accepts "replicate 32 1"] rej
  have "Verify sample_accepts sample_keccak256 (replicate 96 0) (replicate 32 1)
       = Some (ExecutionAddress_zero,
               Some (errors_New ''ed25519 signature verification failed''))"
    and "Verify_test sample_accepts sample_keccak256 (replicate 96 0) (replicate 32 1)
       = Some (ExecutionAddress_zero, Some ErrInvalidSignature)"
    by simp_all
  with digest show ?thesis by (intro conjI)
qed

subsection \<open>Determinism\<close>

lemma hash_object_after_Write:
  "hash_Write (\<sigma> @ [\<lparr>written = []\<rparr>]) (length \<sigma>) p = Some (\<sigma> @ [\<lparr>written = p\<rparr>])"
  by (simp add: hash_Write_def)

lemma hash_Sum_fresh:
  "hash_Sum keccak256 (\<sigma> @ [\<lparr>written = p\<rparr>]) (length \<sigma>) [] = Some (keccak256 p)"
  by (simp add: hash_Sum_def)

lemma deriveAddress_heap_eq:
  "deriveAddress_heap keccak256 \<sigma> pk =
     map_option (\<lambda>a. (a, \<sigma> @ [\<lparr>written = pk\<rparr>])) (deriveAddress keccak256 pk)"
  by (cases "slice (keccak256 pk) (int (length (keccak256 pk)) - 20)
               (int (length (keccak256 pk)))")
     (simp_all add: deriveAddress_heap_def deriveAddress_def NewLegacyKeccak256_def
        hash_object_after_Write hash_Sum_fresh)

lemma Verify_heap_result:
  "map_option fst (Verify_heap accepts keccak256 \<sigma> s h) = Verify accepts keccak256 s h"
proof (cases "length s = 96")
  case False
  then show ?thesis by (simp add: Verify_heap_def Verify_def MAX_SIZE_def)
next
  case True
  then show ?thesis
    by (cases "deriveAddress keccak256 (drop 64 s)")
       (simp_all add: Verify_heap_def Verify_def MAX_SIZE_def slice_signature slice_publicKey
          ed25519_Verify_def deriveAddress_heap_eq)
qed

text \<open>
  C6. \<open>Verify\<close> is deterministic and reads nothing but its two inputs: started in
  any two heaps, on \<open>signatureInfo\<close> arguments of the same length with the same
  byte at every position and payload hashes likewise, the two calls return the
  same address and error, or both panic. In particular a call made in the heap
  that an earlier call left behind returns what the earlier call returned: the
  hash object is allocated afresh in every call, and nothing written to the
  heap before the call reaches the result.
\<close>

theorem verify_deterministic:
  assumes "length s1 = length s2" and "\<forall>i < length s1. s1 ! i = s2 ! i"
    and "length h1 = length h2" and "\<forall>i < length h1. h1 ! i = h2 ! i"
  shows "map_option fst (Verify_heap accepts keccak256 \<sigma>1 s1 h1)
           = map_option fst (Verify_heap accepts keccak256 \<sigma>2 s2 h2)
       \<and> (\<forall>r \<sigma>'. Verify_heap accepts keccak256 \<sigma>1 s1 h1 = Some (r, \<sigma>') \<longrightarrow>
             map_option fst (Verify_heap accepts keccak256 \<sigma>' s2 h2) = Some r)"
proof -
  from assms(1,2) have s: "s1 = s2" by (simp add: nth_equalityI)
  from assms(3,4) have h: "h1 = h2" by (simp add: nth_equalityI)
  have any: "map_option fst (Verify_heap accepts keccak256 \<sigma> s2 h2)
               = map_option fst (Verify_heap accepts keccak256 \<sigma>'' s2 h2)" for \<sigma> \<sigma>''
    by (simp add: Verify_heap_result)
  show ?thesis
  proof (intro conjI allI impI)
    show "map_option fst (Verify_heap accepts keccak256 \<sigma>1 s1 h1)
            = map_option fst (Verify_heap accepts keccak256 \<sigma>2 s2 h2)"
      unfolding s h by (rule any)
  next
    fix r \<sigma>'
    assume "Verify_heap accepts keccak256 \<sigma>1 s1 h1 = Some (r, \<sigma>')"
    then have "map_option fst (Verify_heap accepts keccak256 \<sigma>1 s2 h2) = Some r"
      unfolding s h by simp
    with any [of \<sigma>' \<sigma>1] show "map_option fst (Verify_heap accepts keccak256 \<sigma>' s2 h2) = Some r"
      by simp
  qed
qed

theorem verify_deterministic_witness:
  "length (replicate 32 (7 :: byte) @ replicate 64 2)
     = length (replicate 32 (7 :: byte) @ replicate 32 2 @ replicate 32 2)
   \<and> length (replicate 32 (7 :: byte)) = length (replicate 16 (7 :: byte) @ replicate 16 7)
   \<and> Verify_heap sample_accepts sample_keccak256 []
        (replicate 32 7 @ replicate 64 2) (replicate 32 7)
       = Some ((replicate 20 2, None), [\<lparr>written = replicate 32 2\<rparr>])
   \<and> map_option fst (Verify_heap sample_accepts sample_keccak256
        [\<lparr>written = replicate 32 2\<rparr>, \<lparr>written = [1, 2, 3]\<rparr>]
        (replicate 32 7 @ replicate 32 2 @ replicate 32 2) (replicate 16 7 @ replicate 16 7))
       = Some (replicate 20 2, None)"
proof -
  have a: "length (replicate 32 (7 :: byte) @ replicate 64 2)
     = length (replicate 32 (7 :: byte) @ replicate 32 2 @ replicate 32 2)"
    by simp
  have b: "\<forall>i < length (replicate 32 (7 :: byte) @ replicate 64 2).
     (replicate 32 (7 :: byte) @ replicate 64 2) ! i
       = (replicate 32 7 @ replicate 32 2 @ replicate 32 2) ! i"
    by (simp add: nth_append)
  have c: "length (replicate 32 (7 :: byte)) = length (replicate 16 (7 :: byte) @ replicate 16 7)"
    by simp
  have d: "\<forall>i < length (replicate 32 (7 :: byte)).
     replicate 32 (7 :: byte) ! i = (replicate 16 7 @ replicate 16 7) ! i"
    by (simp add: nth_append)
  have da: "deriveAddress sample_keccak256 (replicate 32 2) = Some (replicate 20 2)"
    using deriveAddress_Some [of sample_keccak256 "replicate 32 2"]
    by (simp add: sample_keccak256_def)
  have first: "Verify_heap sample_accepts sample_keccak256 []
        (replicate 32 7 @ replicate 64 2) (replicate 32 7)
       = Some ((replicate 20 2, None), [\<lparr>written = replicate 32 2\<rparr>])"
    by (simp add: Verify_heap_def MAX_SIZE_def slice_signature slice_publicKey
        ed25519_Verify_def sample_accepts_def deriveAddress_heap_eq da)
  from verify_deterministic [OF a b c d, of sample_accepts sample_keccak256 "[]"
      "[\<lparr>written = replicate 32 2\<rparr>, \<lparr>written = [1, 2, 3]\<rparr>]"] first
  have "map_option fst (Verify_heap sample_accepts sample_keccak256
        [\<lparr>written = replicate 32 2\<rparr>, \<lparr>written = [1, 2, 3]\<rparr>]
        (replicate 32 7 @ replicate 32 2 @ replicate 32 2) (replicate 16 7 @ replicate 16 7))
       = Some (replicate 20 2, None)"
    by simp
  with a c first show ?thesis by (intro conjI)
qed

subsection \<open>Constants\<close>

text \<open>
  C7. The constants are \<open>ALG_TYPE = 0x00\<close>, \<open>GAS_PENALTY = 1000\<close> and
  \<open>MAX_SIZE = 96\<close>, in the package main and in the test package, and \<open>MAX_SIZE\<close>
  is the length that \<open>Verify\<close> requires: the result is the length error exactly
  when the length of the input is not \<open>MAX_SIZE\<close>.
\<close>

theorem constants_and_length_guard:
  "ALG_TYPE = 0x00 \<and> GAS_PENALTY = 1000 \<and> MAX_SIZE = 96
   \<and> ALG_TYPE_test = 0x00 \<and> GAS_PENALTY_test = 1000 \<and> MAX_SIZE_test = 96
   \<and> (Verify accepts keccak256 s h =
         Some (ExecutionAddress_zero,
               Some (Errorf_signature_info_length MAX_SIZE (int (length s)))))
       = (int (length s) \<noteq> MAX_SIZE)"
proof -
  have guard: "(Verify accepts keccak256 s h =
         Some (ExecutionAddress_zero,
               Some (Errorf_signature_info_length MAX_SIZE (int (length s)))))
       = (int (length s) \<noteq> MAX_SIZE)"
  proof (cases "length s = 96")
    case False
    then show ?thesis by (simp add: Verify_not_96 MAX_SIZE_def)
  next
    case True
    have "Verify accepts keccak256 s h \<noteq>
         Some (ExecutionAddress_zero,
               Some (Errorf_signature_info_length MAX_SIZE (int (length s))))"
      using length_error_neq_signature_error [of MAX_SIZE "int (length s)"]
      by (cases "deriveAddress keccak256 (drop 64 s)")
         (auto simp: Verify_96 [OF True])
    with True show ?thesis by (simp add: MAX_SIZE_def)
  qed
  then show ?thesis
    by (simp add: ALG_TYPE_def GAS_PENALTY_def MAX_SIZE_def ALG_TYPE_test_def
        GAS_PENALTY_test_def MAX_SIZE_test_def)
qed

subsection \<open>Parsing and serialising the signature info\<close>

lemma ParseSignatureInfo_96:
  assumes len: "length data = 96"
  shows "ParseSignatureInfo data =
           Some (Some \<lparr>Signature = take 64 data, PublicKey = drop 64 data\<rparr>, None)"
  using len
  by (simp add: ParseSignatureInfo_def MAX_SIZE_def slice_signature slice_publicKey
      SignatureInfo_zero_def copy_def)

lemma ToBytes_parts:
  assumes sg: "length sg = 64" and pk: "length pk = 32"
  shows "ToBytes \<lparr>Signature = sg, PublicKey = pk\<rparr> = Some (sg @ pk)"
proof -
  have first: "copy_at (replicate 96 (0 :: byte)) 0 64 sg = Some (sg @ replicate 32 0)"
    using sg by (simp add: copy_at_def slice_def copy_def)
  have second: "copy_at (sg @ replicate 32 (0 :: byte)) 64 96 pk = Some (sg @ pk)"
    using sg pk by (simp add: copy_at_def slice_def copy_def)
  show ?thesis
    using sg by (simp add: ToBytes_def MAX_SIZE_def first second)
qed

text \<open>
  C8. \<open>ParseSignatureInfo\<close> returns an error exactly when its input does not have
  96 bytes (the result is then \<open>nil\<close> with the data-length error). On an input of
  96 bytes it returns a \<open>SignatureInfo\<close> with a \<open>nil\<close> error, whose fields are the
  first 64 and the last 32 bytes, and \<open>ToBytes\<close> of it is a 96-byte sequence equal
  to the input.
\<close>

theorem parse_roundtrip:
  "((\<exists>r e. ParseSignatureInfo data = Some (r, Some e)) = (length data \<noteq> 96))
   \<and> (length data \<noteq> 96 \<longrightarrow>
        ParseSignatureInfo data =
          Some (None, Some (Errorf_data_length MAX_SIZE (int (length data)))))
   \<and> (length data = 96 \<longrightarrow>
        (\<exists>sigInfo out. ParseSignatureInfo data = Some (Some sigInfo, None)
           \<and> Signature sigInfo = take 64 data \<and> PublicKey sigInfo = drop 64 data
           \<and> ToBytes sigInfo = Some out \<and> length out = 96 \<and> out = data))"
proof (cases "length data = 96")
  case False
  then show ?thesis by (simp add: ParseSignatureInfo_def MAX_SIZE_def)
next
  case True
  have "ToBytes \<lparr>Signature = take 64 data, PublicKey = drop 64 data\<rparr>
          = Some (take 64 data @ drop 64 data)"
    using True by (intro ToBytes_parts) simp_all
  then have "ToBytes \<lparr>Signature = take 64 data, PublicKey = drop 64 data\<rparr> = Some data"
    by simp
  with True show ?thesis by (simp add: ParseSignatureInfo_96)
qed

theorem parse_roundtrip_witness:
  "length (replicate 64 (1 :: byte) @ replicate 32 2) = 96
   \<and> ParseSignatureInfo (replicate 64 1 @ replicate 32 2)
       = Some (Some \<lparr>Signature = replicate 64 1, PublicKey = replicate 32 2\<rparr>, None)
   \<and> ToBytes \<lparr>Signature = replicate 64 1, PublicKey = replicate 32 2\<rparr>
       = Some (replicate 64 1 @ replicate 32 2)
   \<and> length (replicate 50 (0 :: byte)) \<noteq> 96
   \<and> ParseSignatureInfo (replicate 50 0)
       = Some (None, Some (Errorf_data_length MAX_SIZE 50))"
proof -
  have l: "length (replicate 64 (1 :: byte) @ replicate 32 2) = 96" by simp
  have n: "length (replicate 50 (0 :: byte)) \<noteq> 96" by simp
  from parse_roundtrip [of "replicate 64 1 @ replicate 32 2"] l
  obtain sigInfo where p: "ParseSignatureInfo (replicate 64 1 @ replicate 32 2)
       = Some (Some sigInfo, None)"
    and s: "Signature sigInfo = take 64 (replicate 64 1 @ replicate 32 2)"
    and k: "PublicKey sigInfo = drop 64 (replicate 64 1 @ replicate 32 2)"
    and t: "ToBytes sigInfo = Some (replicate 64 1 @ replicate 32 2)"
    by blast
  from s k have "sigInfo = \<lparr>Signature = replicate 64 1, PublicKey = replicate 32 2\<rparr>"
    by simp
  with p t have
    "ParseSignatureInfo (replicate 64 1 @ replicate 32 2)
       = Some (Some \<lparr>Signature = replicate 64 1, PublicKey = replicate 32 2\<rparr>, None)"
    and "ToBytes \<lparr>Signature = replicate 64 1, PublicKey = replicate 32 2\<rparr>
       = Some (replicate 64 1 @ replicate 32 2)"
    by simp_all
  moreover from parse_roundtrip [of "replicate 50 0"] n
  have "ParseSignatureInfo (replicate 50 0)
       = Some (None, Some (Errorf_data_length MAX_SIZE 50))"
    by simp
  ultimately show ?thesis using l n by (intro conjI)
qed

subsection \<open>No panic\<close>

text \<open>
  C9. \<open>Verify\<close> returns on every input, it never panics. Behind the length guard
  the two slice expressions are in range, the signature passed to the Ed25519
  primitive has 64 bytes and the public key 32, so the primitive's panic on a
  public key of another size is not reached. The digest of the hash is taken to
  be 32 bytes long, which keeps the slice in \<open>deriveAddress\<close> in range.
\<close>

theorem verify_total:
  assumes digest: "\<forall>x. length (keccak256 x) = 32"
  shows "(\<exists>address err. Verify accepts keccak256 s h = Some (address, err))
       \<and> (int (length s) = MAX_SIZE \<longrightarrow>
            (\<exists>signature publicKey ok.
               slice s 0 64 = Some signature \<and> length signature = 64
             \<and> slice s 64 96 = Some publicKey \<and> length publicKey = 32
             \<and> ed25519_Verify accepts publicKey h signature = Some ok))"
proof
  have d: "20 \<le> length (keccak256 (drop 64 s))" using digest by simp
  show "\<exists>address err. Verify accepts keccak256 s h = Some (address, err)"
  proof (cases "length s = 96")
    case False
    then show ?thesis by (simp add: Verify_not_96)
  next
    case True
    then show ?thesis
      by (simp add: Verify_96 deriveAddress_Some [of keccak256 "drop 64 s", OF d])
  qed
next
  show "int (length s) = MAX_SIZE \<longrightarrow>
            (\<exists>signature publicKey ok.
               slice s 0 64 = Some signature \<and> length signature = 64
             \<and> slice s 64 96 = Some publicKey \<and> length publicKey = 32
             \<and> ed25519_Verify accepts publicKey h signature = Some ok)"
    by (simp add: MAX_SIZE_def slice_signature slice_publicKey ed25519_Verify_def)
qed

theorem verify_total_witness:
  "(\<forall>x. length (sample_keccak256 x) = 32)
   \<and> int (length (replicate 96 (0 :: byte))) = MAX_SIZE
   \<and> (\<exists>address err. Verify sample_accepts sample_keccak256 (replicate 96 0) (replicate 32 1)
         = Some (address, err))
   \<and> (\<exists>signature publicKey ok.
         slice (replicate 96 (0 :: byte)) 0 64 = Some signature \<and> length signature = 64
       \<and> slice (replicate 96 (0 :: byte)) 64 96 = Some publicKey \<and> length publicKey = 32
       \<and> ed25519_Verify sample_accepts publicKey (replicate 32 1) signature = Some ok)"
proof -
  have digest: "\<forall>x. length (sample_keccak256 x) = 32"
    by (simp add: sample_keccak256_length)
  have l: "int (length (replicate 96 (0 :: byte))) = MAX_SIZE"
    by (simp add: MAX_SIZE_def)
  from verify_total [OF digest, of sample_accepts "replicate 96 0" "replicate 32 1"] l digest
  show ?thesis by blast
qed

subsection \<open>The two copies of Verify\<close>

text \<open>
  C10. The \<open>Verify\<close> of the package main and the \<open>Verify\<close> of the test package
  agree on every input: both succeed with the same address, or both fail on the
  length (the formatted length error there, \<open>ErrInvalidLength\<close> here), or both
  fail on the signature (the verification error there, \<open>ErrInvalidSignature\<close>
  here); a failure returns the zero address in both. Both are given the same
  library primitives, and the digest of the hash is taken to be 32 bytes long.
\<close>

theorem verify_main_test_equivalent:
  assumes digest: "\<forall>x. length (keccak256 x) = 32"
  shows "(\<exists>addr. Verify accepts keccak256 s h = Some (addr, None)
              \<and> Verify_test accepts keccak256 s h = Some (addr, None))
       \<or> (Verify accepts keccak256 s h =
             Some (ExecutionAddress_zero,
                   Some (Errorf_signature_info_length MAX_SIZE (int (length s))))
          \<and> Verify_test accepts keccak256 s h =
             Some (ExecutionAddress_zero, Some ErrInvalidLength))
       \<or> (Verify accepts keccak256 s h =
             Some (ExecutionAddress_zero,
                   Some (errors_New ''ed25519 signature verification failed''))
          \<and> Verify_test accepts keccak256 s h =
             Some (ExecutionAddress_zero, Some ErrInvalidSignature))"
proof (cases "length s = 96")
  case False
  then show ?thesis by (simp add: Verify_not_96 Verify_test_not_96)
next
  case True
  have d: "20 \<le> length (keccak256 (drop 64 s))" using digest by simp
  from True show ?thesis
    by (simp add: Verify_96 Verify_test_96 deriveAddress_Some [of keccak256 "drop 64 s", OF d])
qed

theorem verify_main_test_equivalent_witness:
  "(\<forall>x. length (sample_keccak256 x) = 32)
   \<and> Verify sample_accepts sample_keccak256 (replicate 32 7 @ replicate 64 2) (replicate 32 7)
       = Some (replicate 20 2, None)
   \<and> Verify_test sample_accepts sample_keccak256 (replicate 32 7 @ replicate 64 2) (replicate 32 7)
       = Some (replicate 20 2, None)"
proof -
  have digest: "\<forall>x. length (sample_keccak256 x) = 32"
    by (simp add: sample_keccak256_length)
  have da: "deriveAddress sample_keccak256 (replicate 32 2) = Some (replicate 20 2)"
    using deriveAddress_Some [of sample_keccak256 "replicate 32 2"]
    by (simp add: sample_keccak256_def)
  have ok: "Verify sample_accepts sample_keccak256 (replicate 32 7 @ replicate 64 2)
      (replicate 32 7) = Some (replicate 20 2, None)"
    by (simp add: Verify_96 sample_accepts_def da)
  from verify_main_test_equivalent [OF digest, of sample_accepts
      "replicate 32 7 @ replicate 64 2" "replicate 32 7"] ok
  have "Verify_test sample_accepts sample_keccak256 (replicate 32 7 @ replicate 64 2)
      (replicate 32 7) = Some (replicate 20 2, None)"
    by simp
  with digest ok show ?thesis by (intro conjI)
qed

end
